theory Spec2Isabelle
  imports Complex_Main
begin

section \<open>PV calculator: data model\<close>

text \<open>
  The request and response schemas of \<^verbatim>\<open>main.py\<close>. Python floats are modelled as
  real numbers, and the energy and money formulas are read over the reals, as
  the specification reads them. The one place where a rounding error of the
  doubles changes the result by a whole unit is the argument of \<^verbatim>\<open>int()\<close> on
  line 59: there the two operations are rounded as doubles round.
  \<^verbatim>\<open>panel_count\<close> is a Python integer.
\<close>

record PVRequest =
  latitude :: real
  longitude :: real
  system_capacity :: real
  panel_efficiency :: real
  system_losses :: real

record PVResponse =
  annual_energy :: real
  monthly_energy :: "real list"
  capacity_factor :: real
  psh_annual :: real
  roi_period :: real
  panel_count :: int
  required_area :: real
  system_cost :: real
  annual_savings :: real

text \<open>
  The exceptions the arithmetic of the module can raise. Over the reals the
  only one is the division of a float by zero.
\<close>

datatype exn = ZeroDivisionError

text \<open>\<^verbatim>\<open>str(e)\<close>: the message CPython attaches to a float division by zero.\<close>

fun str :: "exn \<Rightarrow> string" where
  "str ZeroDivisionError = ''float division by zero''"

text \<open>
  What \<^verbatim>\<open>calculate_pv\<close> returns: the response object, or the dictionary
  \<^verbatim>\<open>{"error": str(e)}\<close>, whose only entry is the message.
\<close>

datatype payload = Response PVResponse | ErrorPayload string

section \<open>Python primitives\<close>

text \<open>\<^verbatim>\<open>a / b\<close> on floats raises when the divisor is zero.\<close>

definition float_div :: "real \<Rightarrow> real \<Rightarrow> exn + real" where
  "float_div a b = (if b = 0 then Inl ZeroDivisionError else Inr (a / b))"

text \<open>
  The two-argument \<^verbatim>\<open>max\<close> and \<^verbatim>\<open>min\<close> keep the first argument unless the
  second is strictly larger (smaller).
\<close>

definition py_max :: "real \<Rightarrow> real \<Rightarrow> real" where
  "py_max a b = (if b > a then b else a)"

definition py_min :: "real \<Rightarrow> real \<Rightarrow> real" where
  "py_min a b = (if b < a then b else a)"

text \<open>\<^verbatim>\<open>int(x)\<close> on a float truncates towards zero.\<close>

definition py_int :: "real \<Rightarrow> int" where
  "py_int x = (if x < 0 then \<lceil>x\<rceil> else \<lfloor>x\<rfloor>)"

text \<open>
  Double-precision rounding: a significand of 53 bits, rounding to the nearest
  representable number, ties to the even significand. \<open>binade x\<close> is the
  exponent \<open>e\<close> with \<open>2^e \<le> |x| < 2^(e+1)\<close>, and the spacing of the doubles there
  is \<open>2^(e - 52)\<close>. The exponent is not bounded: overflow to infinity, subnormal
  numbers and NaN are outside this model, and with them the \<^verbatim>\<open>OverflowError\<close>
  and \<^verbatim>\<open>ValueError\<close> that \<^verbatim>\<open>int()\<close> raises on an infinity and on a NaN.
\<close>

definition round_half_even :: "real \<Rightarrow> int" where
  "round_half_even x =
     (let f = \<lfloor>x\<rfloor>; d = x - of_int f
      in if d < 1 / 2 then f else if 1 / 2 < d then f + 1 else if even f then f else f + 1)"

definition binade :: "real \<Rightarrow> int" where
  "binade x = \<lfloor>log 2 \<bar>x\<bar>\<rfloor>"

definition round_double :: "real \<Rightarrow> real" where
  "round_double x =
     (if x = 0 then 0
      else (let ulp = 2 powr (of_int (binade x) - 52)
            in of_int (round_half_even (x / ulp)) * ulp))"

text \<open>\<^verbatim>\<open>sum(xs)\<close> adds from the left, starting at 0.\<close>

definition py_sum :: "real list \<Rightarrow> real" where
  "py_sum xs = foldl (+) 0 xs"

text \<open>
  A list comprehension whose element expression can raise: the first exception
  aborts the comprehension.
\<close>

fun comprehension :: "('a \<Rightarrow> exn + 'b) \<Rightarrow> 'a list \<Rightarrow> exn + 'b list" where
  "comprehension f [] = Inr []"
| "comprehension f (x # xs) =
     (case f x of
        Inl e \<Rightarrow> Inl e
      | Inr y \<Rightarrow> (case comprehension f xs of Inl e \<Rightarrow> Inl e | Inr ys \<Rightarrow> Inr (y # ys)))"

section \<open>Peak sun hours\<close>

text \<open>
  \<^verbatim>\<open>calculate_psh(lat, lon)\<close>. The month read from \<^verbatim>\<open>datetime.now()\<close> is the
  explicit argument \<open>current_month\<close>.
\<close>

definition calculate_psh :: "int \<Rightarrow> real \<Rightarrow> real \<Rightarrow> real" where
  "calculate_psh current_month lat lon =
     (let base_psh = 4.5;
          lat_effect = \<bar>lat\<bar> * 0.02;
          seasonal_factor = 1 + 0.1 * sin (2 * pi * real_of_int (current_month - 6) / 12);
          psh = base_psh - lat_effect;
          psh = psh * seasonal_factor
      in py_max 2.0 (py_min 6.0 psh))"

text \<open>The formula of the specification, written in one piece, with the clamp to \<open>[2, 6]\<close>.\<close>

definition psh_spec :: "int \<Rightarrow> real \<Rightarrow> real" where
  "psh_spec current_month lat =
     max 2 (min 6 ((4.5 - \<bar>lat\<bar> * 0.02)
                   * (1 + 0.1 * sin (2 * pi * (real_of_int current_month - 6) / 12))))"

section \<open>Monthly distribution\<close>

definition northern_pattern :: "real list" where
  "northern_pattern = [0.06, 0.07, 0.08, 0.09, 0.10, 0.12,
                       0.12, 0.11, 0.10, 0.09, 0.08, 0.07]"

definition southern_pattern :: "real list" where
  "southern_pattern = [0.12, 0.11, 0.10, 0.09, 0.08, 0.07,
                       0.07, 0.08, 0.09, 0.10, 0.11, 0.12]"

text \<open>The table chosen by the hemisphere test of \<^verbatim>\<open>generate_monthly_energy\<close>.\<close>

definition base_pattern :: "real \<Rightarrow> real list" where
  "base_pattern lat = (if lat \<ge> 0 then northern_pattern else southern_pattern)"

definition generate_monthly_energy :: "real \<Rightarrow> real \<Rightarrow> exn + real list" where
  "generate_monthly_energy annual_energy' lat =
     (let total = py_sum (base_pattern lat)
      in case comprehension (\<lambda>factor. float_div factor total) (base_pattern lat) of
           Inl e \<Rightarrow> Inl e
         | Inr normalized_pattern \<Rightarrow>
             Inr (map (\<lambda>factor. annual_energy' * factor) normalized_pattern))"

section \<open>The endpoint\<close>

text \<open>
  The body of the \<^verbatim>\<open>try\<close> block of \<^verbatim>\<open>calculate_pv\<close>, statement by statement.
  On line 59 the product \<^verbatim>\<open>system_capacity * 1000\<close> and the quotient by 450 are
  each rounded to a double before \<^verbatim>\<open>int()\<close> truncates.
\<close>

definition try_block :: "int \<Rightarrow> PVRequest \<Rightarrow> exn + PVResponse" where
  "try_block current_month request =
     (let psh_annual' = calculate_psh current_month (latitude request) (longitude request);
          annual_energy' = system_capacity request * psh_annual' * 365 * (1 - system_losses request)
      in case float_div annual_energy' (system_capacity request * 8760) of
           Inl e \<Rightarrow> Inl e
         | Inr q \<Rightarrow>
        (let capacity_factor' = q * 100
         in case generate_monthly_energy annual_energy' (latitude request) of
              Inl e \<Rightarrow> Inl e
            | Inr monthly_energy' \<Rightarrow>
           (let system_cost' = system_capacity request * 18000000;
                annual_savings' = annual_energy' * 1500
            in case (if annual_savings' > 0 then float_div system_cost' annual_savings' else Inr 0) of
                 Inl e \<Rightarrow> Inl e
               | Inr roi_period' \<Rightarrow>
              (let panel_count' =
                     py_int (round_double (round_double (system_capacity request * 1000) / 450));
                   required_area' = system_capacity request * 7
               in Inr \<lparr> annual_energy = annual_energy',
                         monthly_energy = monthly_energy',
                         capacity_factor = capacity_factor',
                         psh_annual = psh_annual',
                         roi_period = roi_period',
                         panel_count = panel_count',
                         required_area = required_area',
                         system_cost = system_cost',
                         annual_savings = annual_savings' \<rparr>))))"

text \<open>\<^verbatim>\<open>calculate_pv\<close>: the \<^verbatim>\<open>try\<close> block with its catch-all handler.\<close>

definition calculate_pv :: "int \<Rightarrow> PVRequest \<Rightarrow> payload" where
  "calculate_pv current_month request =
     (case try_block current_month request of
        Inr response \<Rightarrow> Response response
      | Inl e \<Rightarrow> ErrorPayload (str e))"

text \<open>The response carried by a payload, if it carries one.\<close>

fun response_of :: "payload \<Rightarrow> PVResponse option" where
  "response_of (Response response) = Some response"
| "response_of (ErrorPayload message) = None"

text \<open>
  The route is registered with \<^verbatim>\<open>response_model=PVResponse\<close> (line 40): the value
  the handler returns is checked against that schema. The nine fields of
  \<^verbatim>\<open>PVResponse\<close> have no default, so each of them is required.
\<close>

definition required_fields :: "string list" where
  "required_fields = [''annual_energy'', ''monthly_energy'', ''capacity_factor'',
     ''psh_annual'', ''roi_period'', ''panel_count'', ''required_area'', ''system_cost'',
     ''annual_savings'']"

text \<open>The fields a returned value has: those of the response object, or the one key of the dictionary.\<close>

fun fields_of :: "payload \<Rightarrow> string list" where
  "fields_of (Response response) = required_fields"
| "fields_of (ErrorPayload message) = [''error'']"

definition response_model_accepts :: "payload \<Rightarrow> bool" where
  "response_model_accepts returned =
     list_all (\<lambda>field. field \<in> set (fields_of returned)) required_fields"

section \<open>Auxiliary notions for the proofs\<close>

text \<open>The weights after normalisation, and the annual energy of a request.\<close>

definition normalized :: "real \<Rightarrow> real list" where
  "normalized lat = map (\<lambda>factor. factor / py_sum (base_pattern lat)) (base_pattern lat)"

definition energy_of :: "int \<Rightarrow> PVRequest \<Rightarrow> real" where
  "energy_of m request =
     system_capacity request * calculate_psh m (latitude request) (longitude request) * 365
       * (1 - system_losses request)"

section \<open>Example requests\<close>

text \<open>The request of the specification's end-to-end example.\<close>

definition jakarta :: PVRequest where
  "jakarta = \<lparr> latitude = - 6.2, longitude = 106.8, system_capacity = 5,
               panel_efficiency = 0.18, system_losses = 0.14 \<rparr>"



definition no_capacity :: PVRequest where
  "no_capacity = \<lparr> latitude = 0, longitude = 0, system_capacity = 0,
               panel_efficiency = 0.18, system_losses = 0.14 \<rparr>"

text \<open>A capacity of 4.05: the double nearest to it, \<open>4559894622712627 / 2^50\<close>.\<close>

definition capacity_405 :: PVRequest where
  "capacity_405 = \<lparr> latitude = 0, longitude = 0,
               system_capacity = 4559894622712627 / 1125899906842624,
               panel_efficiency = 0.18, system_losses = 0.14 \<rparr>"

text \<open>The first example with another longitude and panel efficiency.\<close>

definition jakarta_east :: PVRequest where
  "jakarta_east = \<lparr> latitude = - 6.2, longitude = 120, system_capacity = 5,
               panel_efficiency = 0.22, system_losses = 0.14 \<rparr>"

section \<open>Helper lemmas\<close>

lemma py_max_eq: "py_max a b = max a b"
  by (simp add: py_max_def max_def)

lemma py_min_eq: "py_min a b = min a b"
  by (simp add: py_min_def min_def)

lemma calculate_psh_bounds: "2 \<le> calculate_psh m lat lon \<and> calculate_psh m lat lon \<le> 6"
  by (simp add: calculate_psh_def Let_def py_max_eq py_min_eq)


lemma py_sum_northern: "py_sum northern_pattern = 1.09"
  by (simp add: py_sum_def northern_pattern_def)

lemma py_sum_southern: "py_sum southern_pattern = 1.14"
  by (simp add: py_sum_def southern_pattern_def)

lemma py_sum_base_pattern: "py_sum (base_pattern lat) = (if 0 \<le> lat then 1.09 else 1.14)"
  by (simp add: base_pattern_def py_sum_northern py_sum_southern)

lemma py_sum_base_pattern_nonzero: "py_sum (base_pattern lat) \<noteq> 0"
  by (simp add: py_sum_base_pattern)

lemma length_base_pattern: "length (base_pattern lat) = 12"
  by (simp add: base_pattern_def northern_pattern_def southern_pattern_def)

lemma py_sum_sum_list: "foldl (+) a xs = a + sum_list xs" for a :: real
  by (induction xs arbitrary: a) simp_all

lemma comprehension_float_div:
  "t \<noteq> 0 \<Longrightarrow>
   comprehension (\<lambda>factor. float_div factor t) xs = Inr (map (\<lambda>factor. factor / t) xs)"
  by (induction xs) (simp_all add: float_div_def)

lemma generate_monthly_energy_Inr:
  "generate_monthly_energy a lat = Inr (map (\<lambda>factor. a * factor) (normalized lat))"
  by (simp add: generate_monthly_energy_def Let_def normalized_def
      comprehension_float_div [OF py_sum_base_pattern_nonzero])

lemma sum_list_scaled: "sum_list (map (\<lambda>factor. a * factor) xs) = a * sum_list xs" for a :: real
  by (induction xs) (simp_all add: algebra_simps)

lemma sum_list_divided: "sum_list (map (\<lambda>factor. factor / t) xs) = sum_list xs / t" for t :: real
  by (induction xs) (simp_all add: add_divide_distrib)

lemma sum_list_normalized: "sum_list (normalized lat) = 1"
proof -
  have "sum_list (base_pattern lat) = py_sum (base_pattern lat)"
    by (simp add: py_sum_def py_sum_sum_list)
  then show ?thesis
    using py_sum_base_pattern_nonzero [of lat] by (simp add: normalized_def sum_list_divided)
qed

lemma try_block_zero:
  "system_capacity request = 0 \<Longrightarrow> try_block m request = Inl ZeroDivisionError"
  by (simp add: try_block_def Let_def float_div_def)

lemma try_block_nonzero:
  assumes "system_capacity request \<noteq> 0"
  shows "try_block m request =
    Inr \<lparr> annual_energy = energy_of m request,
          monthly_energy = map (\<lambda>factor. energy_of m request * factor) (normalized (latitude request)),
          capacity_factor = energy_of m request / (system_capacity request * 8760) * 100,
          psh_annual = calculate_psh m (latitude request) (longitude request),
          roi_period = (if energy_of m request * 1500 > 0
                        then system_capacity request * 18000000 / (energy_of m request * 1500) else 0),
          panel_count = py_int (round_double (round_double (system_capacity request * 1000) / 450)),
          required_area = system_capacity request * 7,
          system_cost = system_capacity request * 18000000,
          annual_savings = energy_of m request * 1500 \<rparr>"
proof -
  have "float_div (energy_of m request) (system_capacity request * 8760)
          = Inr (energy_of m request / (system_capacity request * 8760))"
    using assms by (simp add: float_div_def)
  moreover have "(if energy_of m request * 1500 > 0
         then float_div (system_capacity request * 18000000) (energy_of m request * 1500) else Inr 0)
       = Inr (if energy_of m request * 1500 > 0
              then system_capacity request * 18000000 / (energy_of m request * 1500) else 0)"
    by (simp add: float_div_def)
  ultimately show ?thesis
    unfolding try_block_def Let_def energy_of_def [symmetric]
    by (simp only: generate_monthly_energy_Inr sum.case)
qed

lemma calculate_pv_zero:
  "system_capacity request = 0 \<Longrightarrow> calculate_pv m request = ErrorPayload (str ZeroDivisionError)"
  by (simp add: calculate_pv_def try_block_zero)


lemma py_sum_base_pattern_pos: "0 < py_sum (base_pattern lat)"
  by (simp add: py_sum_base_pattern)

lemma below_twelve:
  "i < 12 \<Longrightarrow> i = 0 \<or> i = 1 \<or> i = 2 \<or> i = 3 \<or> i = 4 \<or> i = 5 \<or> i = 6 \<or> i = 7 \<or> i = 8
     \<or> i = 9 \<or> i = 10 \<or> i = (11::nat)"
  by arith

lemma all_below_twelve:
  "(\<forall>j<12. P j) \<longleftrightarrow> P 0 \<and> P 1 \<and> P 2 \<and> P 3 \<and> P 4 \<and> P 5 \<and> P 6 \<and> P 7 \<and> P 8 \<and> P 9 \<and> P 10
     \<and> P (11::nat)"
  by (auto dest!: below_twelve)

lemma northern_peak:
  "i < 12 \<Longrightarrow> (\<forall>j<12. northern_pattern ! j \<le> northern_pattern ! i) \<longleftrightarrow> i = 5 \<or> i = 6"
  by (drule below_twelve) (auto simp add: all_below_twelve northern_pattern_def)

lemma southern_peak:
  "i < 12 \<Longrightarrow> (\<forall>j<12. southern_pattern ! j \<le> southern_pattern ! i) \<longleftrightarrow> i = 11 \<or> i = 0"
  by (drule below_twelve) (auto simp add: all_below_twelve southern_pattern_def)

lemma base_pattern_peak:
  "i < 12 \<Longrightarrow> (\<forall>j<12. base_pattern lat ! j \<le> base_pattern lat ! i)
     \<longleftrightarrow> (if 0 \<le> lat then i = 5 \<or> i = 6 else i = 11 \<or> i = 0)"
  by (simp add: base_pattern_def northern_peak southern_peak)

lemma nth_scaled_le:
  fixes a :: real
  assumes "0 < a" and "0 < t" and "i < length xs" and "j < length xs"
  shows "map (\<lambda>factor. a * (factor / t)) xs ! j \<le> map (\<lambda>factor. a * (factor / t)) xs ! i
           \<longleftrightarrow> xs ! j \<le> xs ! i"
  using assms by (simp add: divide_le_cancel)


lemma response_of_nonzero:
  "system_capacity request \<noteq> 0 \<Longrightarrow>
   response_of (calculate_pv m request) =
     Some \<lparr> annual_energy = energy_of m request,
          monthly_energy = map (\<lambda>factor. energy_of m request * factor) (normalized (latitude request)),
          capacity_factor = energy_of m request / (system_capacity request * 8760) * 100,
          psh_annual = calculate_psh m (latitude request) (longitude request),
          roi_period = (if energy_of m request * 1500 > 0
                        then system_capacity request * 18000000 / (energy_of m request * 1500) else 0),
          panel_count = py_int (round_double (round_double (system_capacity request * 1000) / 450)),
          required_area = system_capacity request * 7,
          system_cost = system_capacity request * 18000000,
          annual_savings = energy_of m request * 1500 \<rparr>"
  by (simp add: calculate_pv_def try_block_nonzero)

lemma py_int_nonneg: "0 \<le> x \<Longrightarrow> py_int x = \<lfloor>x\<rfloor>"
  by (simp add: py_int_def)

lemma binade_eq:
  assumes "2 powr of_int e \<le> \<bar>x\<bar>" and "\<bar>x\<bar> < 2 powr (of_int e + 1)"
  shows "binade x = e"
proof -
  have "0 < (2::real) powr of_int e" by simp
  with assms(1) have "0 < \<bar>x\<bar>" by linarith
  then show ?thesis
    unfolding binade_def using assms by (simp add: floor_log_eq_powr_iff)
qed

lemma round_half_even_nonneg: "0 \<le> x \<Longrightarrow> 0 \<le> round_half_even x"
  by (simp add: round_half_even_def Let_def)

lemma round_double_nonneg: "0 \<le> x \<Longrightarrow> 0 \<le> round_double x"
  by (simp add: round_double_def Let_def round_half_even_nonneg)

lemma round_double_eval:
  assumes "2 powr of_int e \<le> \<bar>x\<bar>" and "\<bar>x\<bar> < 2 powr (of_int e + 1)"
    and "round_half_even (x / 2 powr (of_int e - 52)) = k"
  shows "round_double x = of_int k * 2 powr (of_int e - 52)"
proof -
  have "0 < (2::real) powr of_int e" by simp
  with assms(1) have "x \<noteq> 0" by auto
  moreover have "binade x = e" using assms(1,2) by (rule binade_eq)
  ultimately show ?thesis
    by (simp add: round_double_def Let_def assms(3))
qed

lemma round_double_5000: "round_double (5 * 1000) = 5000"
  using round_double_eval [of 12 "5 * 1000" "5000 * 2 ^ 40"]
  by (simp add: powr_neg_numeral round_half_even_def Let_def)

lemma round_double_5000_by_450:
  "round_double (5000 / 450) = 3127499741229511 / 281474976710656"
  using round_double_eval [of 3 "5000 / 450" 6254999482459022]
  by (simp add: powr_neg_numeral round_half_even_def Let_def)

lemma round_double_405_times_1000:
  "round_double (4559894622712627 / 1125899906842624 * 1000) = 4050"
  using round_double_eval [of 11 "4559894622712627 / 1125899906842624 * 1000" "4050 * 2 ^ 41"]
  by (simp add: powr_neg_numeral round_half_even_def Let_def)

lemma round_double_4050_by_450: "round_double (4050 / 450) = 9"
  using round_double_eval [of 3 "4050 / 450" "9 * 2 ^ 49"]
  by (simp add: powr_neg_numeral round_half_even_def Let_def)

lemma round_half_even_error: "\<bar>of_int (round_half_even y) - y\<bar> \<le> 1 / 2"
  unfolding round_half_even_def Let_def by (auto simp add: abs_le_iff)

lemma binade_le: "x \<noteq> 0 \<Longrightarrow> 2 powr of_int (binade x) \<le> \<bar>x\<bar>"
  using floor_log_eq_powr_iff [of "\<bar>x\<bar>" 2 "binade x"] by (simp add: binade_def)

lemma round_double_error: "\<bar>round_double x - x\<bar> \<le> \<bar>x\<bar> / 2 ^ 53"
proof (cases "x = 0")
  case True
  then show ?thesis by (simp add: round_double_def)
next
  case False
  define ulp :: real where "ulp = 2 powr (of_int (binade x) - 52)"
  have u: "0 < ulp" by (simp add: ulp_def)
  have r: "round_double x = of_int (round_half_even (x / ulp)) * ulp"
    using False by (simp add: round_double_def Let_def ulp_def)
  have "round_double x - x = (of_int (round_half_even (x / ulp)) - x / ulp) * ulp"
    using u by (simp add: r algebra_simps)
  then have "\<bar>round_double x - x\<bar> = \<bar>of_int (round_half_even (x / ulp)) - x / ulp\<bar> * ulp"
    using u by (simp add: abs_mult)
  also have "\<dots> \<le> (1 / 2) * ulp"
    using round_half_even_error [of "x / ulp"] u by (simp add: mult_right_mono)
  also have "(1 / 2) * ulp = 2 powr of_int (binade x) / 2 ^ 53"
    by (simp add: ulp_def powr_diff)
  also have "\<dots> \<le> \<bar>x\<bar> / 2 ^ 53"
    using binade_le [OF False] by (simp add: divide_right_mono)
  finally show ?thesis .
qed

lemma floor_close:
  fixes a b :: real
  assumes "\<bar>a - b\<bar> < 1"
  shows "\<bar>\<lfloor>a\<rfloor> - \<lfloor>b\<rfloor>\<bar> \<le> 1"
  using assms by linarith

lemma abs_near:
  fixes a b d :: real
  shows "\<bar>a - b\<bar> \<le> d \<Longrightarrow> 0 \<le> b \<Longrightarrow> \<bar>a\<bar> \<le> b + d"
  by linarith

lemma abs_chain:
  fixes a b c d1 d2 e1 e2 :: real
  shows "\<bar>b - c\<bar> \<le> d1 \<Longrightarrow> \<bar>a - b\<bar> \<le> d2 \<Longrightarrow> d1 \<le> e1 \<Longrightarrow> d2 \<le> e2
    \<Longrightarrow> \<bar>a - c\<bar> \<le> e2 + e1"
  by linarith

lemma panel_quotient_error:
  fixes c :: real
  assumes "0 < c" and "c \<le> 10 ^ 12"
  shows "\<bar>round_double (round_double (c * 1000) / 450) - c * 1000 / 450\<bar> < 1"
proof -
  define p where "p = c * 1000"
  define rp where "rp = round_double p"
  define r where "r = rp / 450"
  have p: "0 < p" "p \<le> 10 ^ 15" using assms by (simp_all add: p_def)
  have 1: "\<bar>rp - p\<bar> \<le> p / 2 ^ 53"
    using round_double_error [of p] p(1) by (simp add: rp_def)
  then have 2: "\<bar>r - p / 450\<bar> \<le> p / 2 ^ 53 / 450"
    by (simp add: r_def abs_le_iff field_simps)
  have 3: "\<bar>round_double r - r\<bar> \<le> \<bar>r\<bar> / 2 ^ 53"
    by (rule round_double_error)
  have "0 \<le> p / 450" using p(1) by simp
  with 2 have "\<bar>r\<bar> \<le> p / 450 + p / 2 ^ 53 / 450" by (rule abs_near)
  also have "\<dots> \<le> 10 ^ 13" using p by simp
  finally have 4: "\<bar>r\<bar> / 2 ^ 53 \<le> 10 ^ 13 / 2 ^ 53" by (simp add: divide_right_mono)
  have 5: "p / 2 ^ 53 / 450 \<le> 10 ^ 15 / 2 ^ 53 / 450" using p by (simp add: divide_right_mono)
  have "\<bar>round_double r - p / 450\<bar> \<le> 10 ^ 13 / 2 ^ 53 + 10 ^ 15 / 2 ^ 53 / 450"
    using 2 3 5 4 by (rule abs_chain)
  also have "\<dots> < 1" by simp
  finally show ?thesis by (simp add: r_def rp_def p_def)
qed

lemma panel_count_nonneg_floor:
  "0 \<le> c \<Longrightarrow>
   py_int (round_double (round_double (c * 1000) / 450))
     = \<lfloor>round_double (round_double (c * 1000) / 450)\<rfloor>"
  by (simp add: py_int_nonneg round_double_nonneg)

section \<open>The peak-sun-hours estimator\<close>

text \<open>
  Claim C2. The estimator computes
  \<open>(4.5 - |latitude| * 0.02) * (1 + 0.1 * sin (2 * pi * (current_month - 6) / 12))\<close>
  for the month of the call and returns that value clamped to \<open>[2, 6]\<close>: the
  function translated from the source agrees, at every month, latitude and
  longitude, with the formula of the specification.
\<close>

theorem calculate_psh_formula:
  "calculate_psh current_month lat lon = psh_spec current_month lat"
  by (simp add: calculate_psh_def psh_spec_def Let_def py_max_eq py_min_eq)

text \<open>
  Claim C6. For every latitude in \<open>[-90, 90]\<close> and every calendar month from 1 to
  12, the value returned by the estimator lies in \<open>[2, 6]\<close>.
\<close>

theorem psh_annual_in_range:
  assumes "- 90 \<le> lat" and "lat \<le> 90" and "1 \<le> current_month" and "current_month \<le> 12"
  shows "2 \<le> calculate_psh current_month lat lon \<and> calculate_psh current_month lat lon \<le> 6"
  by (rule calculate_psh_bounds)

theorem psh_annual_in_range_witness:
  "(- 90 :: real) \<le> 90 \<and> (90 :: real) \<le> 90 \<and> (1 :: int) \<le> 9 \<and> (9 :: int) \<le> 12
   \<and> 2 \<le> calculate_psh 9 90 0 \<and> calculate_psh 9 90 0 \<le> 6"
  using psh_annual_in_range [of 90 9 0] by simp

section \<open>Energy and capacity factor\<close>



section \<open>The monthly distribution\<close>

text \<open>
  Claim C3. For every annual energy that is not negative and every latitude,
  the generator returns the twelve values \<open>annual_energy * (weight / total)\<close> in
  the order of the chosen table, January to December, and their sum is the
  annual energy: exactly, hence also within the relative tolerance \<open>1e-6\<close>.
\<close>

theorem monthly_energy_sums_to_annual:
  assumes "0 \<le> a"
  shows "\<exists>ms. generate_monthly_energy a lat = Inr ms
           \<and> ms = map (\<lambda>factor. a * (factor / py_sum (base_pattern lat))) (base_pattern lat)
           \<and> length ms = 12
           \<and> sum_list ms = a
           \<and> \<bar>sum_list ms - a\<bar> \<le> (1 / 1000000) * \<bar>a\<bar>"
proof -
  let ?ms = "map (\<lambda>factor. a * factor) (normalized lat)"
  have "generate_monthly_energy a lat = Inr ?ms"
    by (rule generate_monthly_energy_Inr)
  moreover have "?ms = map (\<lambda>factor. a * (factor / py_sum (base_pattern lat))) (base_pattern lat)"
    by (simp add: normalized_def o_def)
  moreover have "length ?ms = 12"
    by (simp add: normalized_def length_base_pattern)
  moreover have s: "sum_list ?ms = a"
    by (simp only: sum_list_scaled sum_list_normalized mult_1_right)
  moreover have "\<bar>sum_list ?ms - a\<bar> \<le> (1 / 1000000) * \<bar>a\<bar>"
    by (simp add: s)
  ultimately show ?thesis by blast
qed

theorem monthly_energy_sums_to_annual_witness:
  "(0::real) \<le> 1090
   \<and> generate_monthly_energy 1090 45
       = Inr [60, 70, 80, 90, 100, 120, 120, 110, 100, 90, 80, 70]
   \<and> sum_list [60, 70, 80, 90, 100, 120, 120, 110, 100, 90, 80, 70] = (1090::real)"
proof -
  have h: "(0::real) \<le> 1090" by simp
  from monthly_energy_sums_to_annual [OF h, of 45]
  obtain ms where g: "generate_monthly_energy 1090 45 = Inr ms"
    and m: "ms = map (\<lambda>factor. 1090 * (factor / py_sum (base_pattern 45))) (base_pattern 45)"
    and s: "sum_list ms = 1090" by blast
  have "ms = [60, 70, 80, 90, 100, 120, 120, 110, 100, 90, 80, 70]"
    unfolding m by (simp add: py_sum_base_pattern) (simp add: base_pattern_def northern_pattern_def)
  with g s h show ?thesis by simp
qed

text \<open>
  Claim C5. For every positive annual energy the generator returns twelve
  values, and an index holds a largest value exactly when it is 5 or 6 (June or
  July) for a latitude that is not negative, and exactly when it is 11 or 0
  (December or January) for a negative latitude.
\<close>

theorem monthly_peak:
  assumes "0 < a"
  shows "\<exists>ms. generate_monthly_energy a lat = Inr ms
           \<and> length ms = 12
           \<and> (\<forall>i<12. (\<forall>j<12. ms ! j \<le> ms ! i)
                        \<longleftrightarrow> (if 0 \<le> lat then i = 5 \<or> i = 6 else i = 11 \<or> i = 0))"
proof -
  let ?ms = "map (\<lambda>factor. a * (factor / py_sum (base_pattern lat))) (base_pattern lat)"
  have g: "generate_monthly_energy a lat = Inr ?ms"
    by (simp add: generate_monthly_energy_Inr normalized_def o_def)
  have l: "length ?ms = 12"
    by (simp add: length_base_pattern)
  have "(\<forall>j<12. ?ms ! j \<le> ?ms ! i)
          \<longleftrightarrow> (if 0 \<le> lat then i = 5 \<or> i = 6 else i = 11 \<or> i = 0)" if i: "i < 12" for i
  proof -
    have "(\<forall>j<12. ?ms ! j \<le> ?ms ! i) \<longleftrightarrow> (\<forall>j<12. base_pattern lat ! j \<le> base_pattern lat ! i)"
      using nth_scaled_le [OF assms py_sum_base_pattern_pos [of lat], of i "base_pattern lat"] i
      by (auto simp only: length_base_pattern)
    then show ?thesis
      by (simp only: base_pattern_peak [OF i])
  qed
  with g l show ?thesis by blast
qed

theorem monthly_peak_witness:
  "(0::real) < 1140
   \<and> generate_monthly_energy 1140 (- 6.2)
        = Inr [120, 110, 100, 90, 80, 70, 70, 80, 90, 100, 110, 120]
   \<and> list_all (\<lambda>v. v \<le> [120, 110, 100, 90, 80, 70, 70, 80, 90, 100, 110, 120 :: real] ! 11)
        [120, 110, 100, 90, 80, 70, 70, 80, 90, 100, 110, 120]
   \<and> \<not> list_all (\<lambda>v. v \<le> [120, 110, 100, 90, 80, 70, 70, 80, 90, 100, 110, 120 :: real] ! 5)
        [120, 110, 100, 90, 80, 70, 70, 80, 90, 100, 110, 120]"
proof -
  let ?ms = "[120, 110, 100, 90, 80, 70, 70, 80, 90, 100, 110, 120 :: real]"
  have h: "(0::real) < 1140" by simp
  have g: "generate_monthly_energy 1140 (- 6.2) = Inr ?ms"
    by (simp add: generate_monthly_energy_Inr normalized_def py_sum_base_pattern)
       (simp add: base_pattern_def southern_pattern_def)
  from monthly_peak [OF h, of "- 6.2"] g
  have p: "\<forall>i<12. (\<forall>j<12. ?ms ! j \<le> ?ms ! i) \<longleftrightarrow> (i = 11 \<or> i = 0)"
    by simp
  have n: "length ?ms = 12" by simp
  have l: "list_all (\<lambda>v. v \<le> ?ms ! i) ?ms \<longleftrightarrow> (\<forall>j<12. ?ms ! j \<le> ?ms ! i)" for i
    unfolding list_all_length n by (rule refl)
  from p [rule_format, of 11] have "list_all (\<lambda>v. v \<le> ?ms ! 11) ?ms"
    by (simp only: l) simp
  moreover from p [rule_format, of 5] have "\<not> list_all (\<lambda>v. v \<le> ?ms ! 5) ?ms"
    by (simp only: l) simp
  ultimately show ?thesis using h g by blast
qed

section \<open>Return on investment\<close>






section \<open>Panel count\<close>

text \<open>
  Claim C7 as stated (\<open>panel_count = floor (system_capacity * 1000 / 450)\<close> for
  every positive capacity) fails where the rounding of the doubles crosses an
  integer: for the double nearest to 4.05 the product is rounded up to 4050 and
  the code returns 9, while the quotient of the formula is below 9 and its
  floor is 8.
\<close>

theorem panel_count_rounding_counterexample:
  "0 < system_capacity capacity_405
   \<and> map_option panel_count (response_of (calculate_pv 6 capacity_405)) = Some 9
   \<and> \<lfloor>system_capacity capacity_405 * 1000 / 450\<rfloor> = 8"
proof -
  have c: "system_capacity capacity_405 \<noteq> 0" by (simp add: capacity_405_def)
  have "py_int (round_double (round_double (system_capacity capacity_405 * 1000) / 450)) = 9"
    by (simp only: capacity_405_def PVRequest.simps round_double_405_times_1000
        round_double_4050_by_450) (simp add: py_int_def)
  moreover have "\<lfloor>system_capacity capacity_405 * 1000 / 450\<rfloor> = 8"
    by (simp add: capacity_405_def floor_eq_iff)
  moreover have "0 < system_capacity capacity_405"
    by (simp add: capacity_405_def)
  ultimately show ?thesis
    by (simp add: response_of_nonzero [OF c])
qed

text \<open>
  Claim C7, amended. For every positive capacity below the overflow range of
  the doubles (here: at most \<open>10^300\<close>) a response is returned and its
  \<open>panel_count\<close> is the floor of the quotient as the doubles compute it: the
  product \<open>system_capacity * 1000\<close> rounded to a double, divided by 450 and
  rounded again. For a capacity of at most \<open>10^12\<close> it differs from
  \<open>floor (system_capacity * 1000 / 450)\<close> by at most 1; for a capacity of 5 it
  is 11.
\<close>

theorem panel_count_double_floor:
  assumes "0 < system_capacity request" and "system_capacity request \<le> 10 ^ 300"
  shows "\<exists>response. calculate_pv m request = Response response
           \<and> panel_count response
               = \<lfloor>round_double (round_double (system_capacity request * 1000) / 450)\<rfloor>
           \<and> (system_capacity request \<le> 10 ^ 12 \<longrightarrow>
                 \<bar>panel_count response - \<lfloor>system_capacity request * 1000 / 450\<rfloor>\<bar> \<le> 1)
           \<and> (system_capacity request = 5 \<longrightarrow> panel_count response = 11)"
proof -
  have n: "system_capacity request \<noteq> 0" using assms by simp
  have f: "py_int (round_double (round_double (system_capacity request * 1000) / 450))
             = \<lfloor>round_double (round_double (system_capacity request * 1000) / 450)\<rfloor>"
    using assms(1) by (simp add: panel_count_nonneg_floor)
  have e: "\<bar>\<lfloor>round_double (round_double (system_capacity request * 1000) / 450)\<rfloor>
             - \<lfloor>system_capacity request * 1000 / 450\<rfloor>\<bar> \<le> 1"
    if "system_capacity request \<le> 10 ^ 12"
    using panel_quotient_error [OF assms(1) that] by (rule floor_close)
  have "\<lfloor>round_double (round_double (5 * 1000) / 450)\<rfloor> = 11"
    by (simp only: round_double_5000 round_double_5000_by_450) simp
  with f e show ?thesis
    by (auto simp add: calculate_pv_def try_block_nonzero [OF n])
qed

theorem panel_count_double_floor_witness:
  "0 < system_capacity jakarta \<and> system_capacity jakarta \<le> 10 ^ 300
   \<and> system_capacity jakarta \<le> 10 ^ 12
   \<and> \<lfloor>system_capacity jakarta * 1000 / 450\<rfloor> = 11
   \<and> (\<exists>response. calculate_pv 6 jakarta = Response response \<and> panel_count response = 11)"
proof -
  have h: "0 < system_capacity jakarta" "system_capacity jakarta \<le> 10 ^ 300"
    by (simp_all add: jakarta_def)
  have b: "system_capacity jakarta \<le> 10 ^ 12" by (simp add: jakarta_def)
  have q: "\<lfloor>system_capacity jakarta * 1000 / 450\<rfloor> = 11"
    by (simp add: jakarta_def floor_eq_iff)
  have "system_capacity jakarta = 5" by (simp add: jakarta_def)
  with panel_count_double_floor [OF h, of 6] h b q show ?thesis by blast
qed

section \<open>Unused inputs\<close>

text \<open>
  Claim C9. Two requests that agree on latitude, capacity and losses get, in
  the same calendar month, the same answer in every field, whatever their
  longitudes and panel efficiencies.
\<close>

theorem unused_inputs:
  assumes "latitude r1 = latitude r2"
    and "system_capacity r1 = system_capacity r2"
    and "system_losses r1 = system_losses r2"
  shows "calculate_pv m r1 = calculate_pv m r2"
proof -
  have "try_block m r1 = try_block m r2"
    unfolding try_block_def calculate_psh_def assms by (rule refl)
  then show ?thesis
    by (simp only: calculate_pv_def)
qed

theorem unused_inputs_witness:
  "latitude jakarta = latitude jakarta_east
   \<and> system_capacity jakarta = system_capacity jakarta_east
   \<and> system_losses jakarta = system_losses jakarta_east
   \<and> longitude jakarta \<noteq> longitude jakarta_east
   \<and> panel_efficiency jakarta \<noteq> panel_efficiency jakarta_east
   \<and> calculate_pv 6 jakarta = calculate_pv 6 jakarta_east"
proof -
  have h: "latitude jakarta = latitude jakarta_east"
    "system_capacity jakarta = system_capacity jakarta_east"
    "system_losses jakarta = system_losses jakarta_east"
    by (simp_all add: jakarta_def jakarta_east_def)
  have "longitude jakarta \<noteq> longitude jakarta_east"
    "panel_efficiency jakarta \<noteq> panel_efficiency jakarta_east"
    by (simp_all add: jakarta_def jakarta_east_def)
  with unused_inputs [OF h, of 6] h show ?thesis by simp
qed

section \<open>The catch-all handler\<close>

text \<open>
  Claim C8. If the computation of a request raises, the endpoint should return
  a payload that carries the message of the exception. At a capacity of 0 the
  division on line 48 raises and the handler returns the dictionary with the
  single key \<^verbatim>\<open>error\<close>; that dictionary has none of the fields the route's
  response model requires, so the check of the returned value against
  \<^verbatim>\<open>PVResponse\<close> fails and the message is not what the client is sent.
\<close>

theorem error_dict_fails_response_model:
  "calculate_pv m no_capacity = ErrorPayload ''float division by zero''
   \<and> response_of (calculate_pv m no_capacity) = None
   \<and> \<not> response_model_accepts (calculate_pv m no_capacity)"
proof -
  have "calculate_pv m no_capacity = ErrorPayload ''float division by zero''"
    by (simp add: calculate_pv_zero no_capacity_def)
  then show ?thesis
    by (simp add: response_model_accepts_def required_fields_def)
qed

end
